theory Spec2Isabelle
  imports Main "HOL-Library.Sublist"
begin

section \<open>Values of the host language\<close>

text \<open>
  The filter engine is dynamically typed: records, filters and operands are arbitrary
  values. The model covers undefined, null, booleans, numbers (integers and NaN),
  strings, arrays, plain objects (own enumerable data properties, in enumeration order),
  dates, compiled regular expressions and external schema objects. Arrays and objects
  carry the address they live at, because strict equality compares them by reference.
  Dates, regular expressions and schema objects are opaque: only their address is kept,
  and they have no own enumerable properties. Functions and symbols are outside the model,
  and so are the properties that a record or a filter inherits from its prototype; what
  the operator registry inherits is modelled with the registry.
\<close>

datatype jsval =
    JUndefined
  | JNull
  | JBool bool
  | JNum int
  | JNaN
  | JStr string
  | JArr nat "jsval list"
  | JObj nat "(string \<times> jsval) list"
  | JDate nat
  | JRegExp nat
  | JSchema nat

text \<open>An exception: a TypeError raised by the language, or whatever an external
  capability (a schema, a custom evaluator) throws.\<close>

datatype error = TypeError | Thrown

text \<open>A record (entity) is a flat key/value mapping, \<^verbatim>\<open>Record<string, any>\<close>.\<close>

type_synonym entity = "(string \<times> jsval) list"

text \<open>
  What the engine takes from its host and cannot be written down here: the string
  conversion of numbers and objects, the relational operators, the regular-expression
  engine (\<^verbatim>\<open>new RegExp(src)\<close> is \<open>None\<close> when it throws a SyntaxError) and the
  \<^verbatim>\<open>safeParse(value).success\<close> of a schema object.
\<close>

record host =
  js_ToString :: "jsval \<Rightarrow> string"
  js_lt :: "jsval \<Rightarrow> jsval \<Rightarrow> bool"
  js_le :: "jsval \<Rightarrow> jsval \<Rightarrow> bool"
  js_gt :: "jsval \<Rightarrow> jsval \<Rightarrow> bool"
  js_ge :: "jsval \<Rightarrow> jsval \<Rightarrow> bool"
  regexp_new :: "string \<Rightarrow> nat option"
  regexp_test :: "nat \<Rightarrow> string \<Rightarrow> bool"
  schema_safeParse :: "nat \<Rightarrow> jsval \<Rightarrow> error + bool"

text \<open>\<^verbatim>\<open>String(v)\<close>, also the conversion of a value used as a property key.\<close>

fun String_js :: "host \<Rightarrow> jsval \<Rightarrow> string" where
  "String_js h (JStr s) = s"
| "String_js h JUndefined = ''undefined''"
| "String_js h JNull = ''null''"
| "String_js h (JBool b) = (if b then ''true'' else ''false'')"
| "String_js h JNaN = ''NaN''"
| "String_js h v = js_ToString h v"

text \<open>\<^verbatim>\<open>x === y\<close>: by value on primitives (NaN differs from itself), by address on
  objects.\<close>

fun strict_equals :: "jsval \<Rightarrow> jsval \<Rightarrow> bool" where
  "strict_equals JUndefined y = (y = JUndefined)"
| "strict_equals JNull y = (y = JNull)"
| "strict_equals (JBool a) y = (y = JBool a)"
| "strict_equals (JNum a) y = (y = JNum a)"
| "strict_equals JNaN y = False"
| "strict_equals (JStr a) y = (y = JStr a)"
| "strict_equals (JArr a xs) y = (case y of JArr b ys \<Rightarrow> a = b | _ \<Rightarrow> False)"
| "strict_equals (JObj a xs) y = (case y of JObj b ys \<Rightarrow> a = b | _ \<Rightarrow> False)"
| "strict_equals (JDate a) y = (y = JDate a)"
| "strict_equals (JRegExp a) y = (y = JRegExp a)"
| "strict_equals (JSchema a) y = (y = JSchema a)"

text \<open>\<^verbatim>\<open>xs.includes(x)\<close> compares with SameValueZero: strict equality, except that NaN
  is found.\<close>

definition same_value_zero :: "jsval \<Rightarrow> jsval \<Rightarrow> bool" where
  "same_value_zero x y = (if x = JNaN \<and> y = JNaN then True else strict_equals x y)"

definition array_includes :: "jsval list \<Rightarrow> jsval \<Rightarrow> bool" where
  "array_includes xs x = list_ex (\<lambda>y. same_value_zero y x) xs"

fun string_includes :: "string \<Rightarrow> string \<Rightarrow> bool" where
  "string_includes [] t = (t = [])"
| "string_includes (c # s) t = (prefix t (c # s) \<or> string_includes s t)"

fun isArray :: "jsval \<Rightarrow> bool" where
  "isArray (JArr a xs) = True"
| "isArray v = False"

fun elements :: "jsval \<Rightarrow> jsval list" where
  "elements (JArr a xs) = xs"
| "elements v = []"

fun isString :: "jsval \<Rightarrow> bool" where
  "isString (JStr s) = True"
| "isString v = False"

text \<open>\<^verbatim>\<open>!!x\<close>\<close>

fun ToBoolean :: "jsval \<Rightarrow> bool" where
  "ToBoolean JUndefined = False"
| "ToBoolean JNull = False"
| "ToBoolean (JBool b) = b"
| "ToBoolean (JNum n) = (n \<noteq> 0)"
| "ToBoolean JNaN = False"
| "ToBoolean (JStr s) = (s \<noteq> [])"
| "ToBoolean v = True"

text \<open>\<^verbatim>\<open>typeof v === 'object'\<close> and not null: the values the \<^verbatim>\<open>in\<close> operator accepts
  on its right.\<close>

fun isObject :: "jsval \<Rightarrow> bool" where
  "isObject (JArr a xs) = True"
| "isObject (JObj a kvs) = True"
| "isObject (JDate a) = True"
| "isObject (JRegExp a) = True"
| "isObject (JSchema a) = True"
| "isObject v = False"

text \<open>\<^verbatim>\<open>key in v\<close> on an object, for a key that is not an array index or
  \<^verbatim>\<open>length\<close>.\<close>

fun has_key :: "string \<Rightarrow> jsval \<Rightarrow> bool" where
  "has_key k (JObj a kvs) = (map_of kvs k \<noteq> None)"
| "has_key k v = False"

text \<open>\<^verbatim>\<open>v.key\<close> on an object: undefined when the property is missing.\<close>

fun get_prop :: "jsval \<Rightarrow> string \<Rightarrow> jsval" where
  "get_prop (JObj a kvs) k = (case map_of kvs k of Some v \<Rightarrow> v | None \<Rightarrow> JUndefined)"
| "get_prop v k = JUndefined"

text \<open>\<^verbatim>\<open>entity[field]\<close>\<close>

definition entity_get :: "entity \<Rightarrow> string \<Rightarrow> jsval" where
  "entity_get entity k = (case map_of entity k of Some v \<Rightarrow> v | None \<Rightarrow> JUndefined)"

text \<open>\<^verbatim>\<open>Object.entries(v)\<close>\<close>

fun entries :: "jsval \<Rightarrow> (string \<times> jsval) list" where
  "entries (JObj a kvs) = kvs"
| "entries v = []"

section \<open>Primitive predicates (conditions.ts)\<close>

definition conditions_eq :: "jsval \<Rightarrow> jsval \<Rightarrow> bool" where
  "conditions_eq x v = strict_equals x v"

definition conditions_ne :: "jsval \<Rightarrow> jsval \<Rightarrow> bool" where
  "conditions_ne x v = (\<not> strict_equals x v)"

definition conditions_lt :: "host \<Rightarrow> jsval \<Rightarrow> jsval \<Rightarrow> bool" where
  "conditions_lt h x v = js_lt h x v"

definition conditions_lte :: "host \<Rightarrow> jsval \<Rightarrow> jsval \<Rightarrow> bool" where
  "conditions_lte h x v = js_le h x v"

definition conditions_gt :: "host \<Rightarrow> jsval \<Rightarrow> jsval \<Rightarrow> bool" where
  "conditions_gt h x v = js_gt h x v"

definition conditions_gte :: "host \<Rightarrow> jsval \<Rightarrow> jsval \<Rightarrow> bool" where
  "conditions_gte h x v = js_ge h x v"

definition anyOf :: "jsval \<Rightarrow> jsval \<Rightarrow> bool" where
  "anyOf x vals = (if \<not> isArray vals then False else array_includes (elements vals) x)"

fun contains :: "host \<Rightarrow> jsval \<Rightarrow> jsval \<Rightarrow> bool" where
  "contains h (JStr s) v = string_includes s (String_js h v)"
| "contains h (JArr a xs) v = array_includes xs v"
| "contains h x v = False"

fun startsWith :: "host \<Rightarrow> jsval \<Rightarrow> jsval \<Rightarrow> bool" where
  "startsWith h (JStr s) v = prefix (String_js h v) s"
| "startsWith h x v = False"

fun endsWith :: "host \<Rightarrow> jsval \<Rightarrow> jsval \<Rightarrow> bool" where
  "endsWith h (JStr s) v = suffix (String_js h v) s"
| "endsWith h x v = False"

fun minLength :: "host \<Rightarrow> jsval \<Rightarrow> jsval \<Rightarrow> bool" where
  "minLength h (JStr s) v = js_ge h (JNum (int (length s))) v"
| "minLength h (JArr a xs) v = js_ge h (JNum (int (length xs))) v"
| "minLength h x v = False"

fun maxLength :: "host \<Rightarrow> jsval \<Rightarrow> jsval \<Rightarrow> bool" where
  "maxLength h (JStr s) v = js_le h (JNum (int (length s))) v"
| "maxLength h (JArr a xs) v = js_le h (JNum (int (length xs))) v"
| "maxLength h x v = False"

definition truthy :: "jsval \<Rightarrow> bool" where
  "truthy x = ToBoolean x"

definition isNull :: "jsval \<Rightarrow> bool" where
  "isNull x = (x = JNull \<or> x = JUndefined)"

definition isNotNull :: "jsval \<Rightarrow> bool" where
  "isNotNull x = (x \<noteq> JNull \<and> x \<noteq> JUndefined)"

text \<open>\<^verbatim>\<open>resolvePattern\<close>: a compiled pattern is returned as it is, a string is compiled
  and a SyntaxError is caught, anything else is no pattern.\<close>

fun resolvePattern :: "host \<Rightarrow> jsval \<Rightarrow> nat option" where
  "resolvePattern h (JRegExp p) = Some p"
| "resolvePattern h (JStr src) = regexp_new h src"
| "resolvePattern h v = None"

definition matches :: "host \<Rightarrow> jsval \<Rightarrow> jsval \<Rightarrow> bool" where
  "matches h x pattern =
     (case resolvePattern h pattern of
        None \<Rightarrow> False
      | Some resolvedPattern \<Rightarrow>
          (case x of JStr s \<Rightarrow> regexp_test h resolvedPattern s | _ \<Rightarrow> False))"

text \<open>\<^verbatim>\<open>isRecord\<close>: an object whose prototype is \<^verbatim>\<open>Object.prototype\<close> or null.\<close>

fun isRecord :: "jsval \<Rightarrow> bool" where
  "isRecord (JObj a kvs) = True"
| "isRecord v = False"

text \<open>\<^verbatim>\<open>schema.safeParse(value).success\<close>: nothing is checked or caught. A value that is
  not a schema object has no \<^verbatim>\<open>safeParse\<close> to call, which is a TypeError.\<close>

fun matchesZodSchema :: "host \<Rightarrow> jsval \<Rightarrow> jsval \<Rightarrow> error + bool" where
  "matchesZodSchema h v (JSchema s) = schema_safeParse h s v"
| "matchesZodSchema h v schema = Inl TypeError"

section \<open>Builders (builders.ts)\<close>

text \<open>Objects that a builder allocates live at address 0.\<close>

definition single :: "string \<Rightarrow> string \<Rightarrow> jsval \<Rightarrow> jsval" where
  "single field operator v =
     JObj 0 [(''field'', JStr field), (''operator'', JStr operator), (''value'', v)]"

definition builders_eq :: "string \<Rightarrow> jsval \<Rightarrow> jsval" where
  "builders_eq field v = single field ''eq'' v"

definition matchesAll :: "jsval \<Rightarrow> jsval" where
  "matchesAll record =
     JObj 0 [(''and'', JArr 0 (map (\<lambda>(field, v). builders_eq field v) (entries record)))]"

definition builders_and :: "jsval list \<Rightarrow> jsval" where
  "builders_and conditions = JObj 0 [(''and'', JArr 0 (filter ToBoolean conditions))]"

definition builders_or :: "jsval list \<Rightarrow> jsval" where
  "builders_or conditions = JObj 0 [(''or'', JArr 0 conditions)]"

section \<open>The operator registry and the evaluator (evaluator.ts)\<close>

type_synonym EvaluatorFn = "jsval \<Rightarrow> jsval \<Rightarrow> entity \<Rightarrow> jsval \<Rightarrow> error + bool"

text \<open>The registry is a mutable global object in the source; here it is a parameter of
  the evaluator: it maps an identifier to what \<^verbatim>\<open>operatorEvaluators[id]\<close> yields, \<open>None\<close>
  for undefined. An evaluator's result is taken by its truthiness.\<close>

type_synonym registry = "string \<Rightarrow> EvaluatorFn option"

text \<open>
  The registry is a plain object literal, so a lookup that finds no own entry goes on to
  \<^verbatim>\<open>Object.prototype\<close>. What it finds there is truthy and is called as an evaluator,
  with no receiver:
  \<^item> \<^verbatim>\<open>__proto__\<close> is the prototype object itself, which is not callable: a TypeError;
  \<^item> \<^verbatim>\<open>constructor\<close> is \<^verbatim>\<open>Object\<close>, which returns an object, and \<^verbatim>\<open>toString\<close> returns
    a string: both results are truthy;
  \<^item> \<^verbatim>\<open>isPrototypeOf\<close> returns false for a field value that is not an object and
    otherwise converts its missing receiver to an object: a TypeError;
  \<^item> the other methods convert the missing receiver first: a TypeError.
\<close>

definition Object_prototype :: "string \<Rightarrow> EvaluatorFn option" where
  "Object_prototype name =
     (if name = ''__proto__'' then
        Some (\<lambda>fieldValue conditionValue entity condition. Inl TypeError)
      else if name = ''constructor'' \<or> name = ''toString'' then
        Some (\<lambda>fieldValue conditionValue entity condition. Inr True)
      else if name = ''isPrototypeOf'' then
        Some (\<lambda>fieldValue conditionValue entity condition.
                if isObject fieldValue then Inl TypeError else Inr False)
      else if List.member
          [''hasOwnProperty'', ''propertyIsEnumerable'', ''toLocaleString'', ''valueOf'',
           ''__defineGetter__'', ''__defineSetter__'', ''__lookupGetter__'', ''__lookupSetter__'']
          name then
        Some (\<lambda>fieldValue conditionValue entity condition. Inl TypeError)
      else None)"

text \<open>The entries of the object literal.\<close>

definition builtinEvaluators :: "host \<Rightarrow> (string \<times> EvaluatorFn) list" where
  "builtinEvaluators h =
     [(''eq'', \<lambda>fieldValue conditionValue entity condition. Inr (conditions_eq fieldValue conditionValue)),
      (''ne'', \<lambda>fieldValue conditionValue entity condition. Inr (conditions_ne fieldValue conditionValue)),
      (''lt'', \<lambda>fieldValue conditionValue entity condition. Inr (conditions_lt h fieldValue conditionValue)),
      (''lte'', \<lambda>fieldValue conditionValue entity condition. Inr (conditions_lte h fieldValue conditionValue)),
      (''gt'', \<lambda>fieldValue conditionValue entity condition. Inr (conditions_gt h fieldValue conditionValue)),
      (''gte'', \<lambda>fieldValue conditionValue entity condition. Inr (conditions_gte h fieldValue conditionValue)),
      (''anyOf'', \<lambda>fieldValue conditionValue entity condition. Inr (anyOf fieldValue conditionValue)),
      (''contains'', \<lambda>fieldValue conditionValue entity condition. Inr (contains h fieldValue conditionValue)),
      (''startsWith'', \<lambda>fieldValue conditionValue entity condition. Inr (startsWith h fieldValue conditionValue)),
      (''endsWith'', \<lambda>fieldValue conditionValue entity condition. Inr (endsWith h fieldValue conditionValue)),
      (''minLength'', \<lambda>fieldValue conditionValue entity condition. Inr (minLength h fieldValue conditionValue)),
      (''maxLength'', \<lambda>fieldValue conditionValue entity condition. Inr (maxLength h fieldValue conditionValue)),
      (''truthy'', \<lambda>fieldValue conditionValue entity condition. Inr (truthy fieldValue)),
      (''isNull'', \<lambda>fieldValue conditionValue entity condition. Inr (isNull fieldValue)),
      (''isNotNull'', \<lambda>fieldValue conditionValue entity condition. Inr (isNotNull fieldValue)),
      (''matches'', \<lambda>fieldValue conditionValue entity condition. Inr (matches h fieldValue conditionValue)),
      (''isRecord'', \<lambda>fieldValue conditionValue entity condition. Inr (isRecord fieldValue)),
      (''matchesZodSchema'', \<lambda>fieldValue conditionValue entity condition.
          matchesZodSchema h fieldValue conditionValue)]"

text \<open>\<^verbatim>\<open>operatorEvaluators[id]\<close> on the registry as the module creates it: the own entry,
  or else what \<^verbatim>\<open>Object.prototype\<close> has under that name.\<close>

definition operatorEvaluators :: "host \<Rightarrow> registry" where
  "operatorEvaluators h name =
     (case map_of (builtinEvaluators h) name of
        Some evaluator \<Rightarrow> Some evaluator
      | None \<Rightarrow> Object_prototype name)"

text \<open>\<^verbatim>\<open>xs.every(f)\<close> and \<^verbatim>\<open>xs.some(f)\<close> with a callback that may throw: elements are
  visited in order, the first false (true) ends the scan, an exception leaves it.\<close>

fun every :: "('a \<Rightarrow> error + bool) \<Rightarrow> 'a list \<Rightarrow> error + bool" where
  "every f [] = Inr True"
| "every f (x # xs) =
     (case f x of Inl e \<Rightarrow> Inl e | Inr b \<Rightarrow> if b then every f xs else Inr False)"

fun some :: "('a \<Rightarrow> error + bool) \<Rightarrow> 'a list \<Rightarrow> error + bool" where
  "some f [] = Inr False"
| "some f (x # xs) =
     (case f x of Inl e \<Rightarrow> Inl e | Inr b \<Rightarrow> if b then Inr True else some f xs)"

lemma every_cong [fundef_cong]:
  "xs = ys \<Longrightarrow> (\<And>x. x \<in> set ys \<Longrightarrow> f x = g x) \<Longrightarrow> every f xs = every g ys"
  by (induction ys arbitrary: xs) (auto split: sum.splits)

lemma some_cong [fundef_cong]:
  "xs = ys \<Longrightarrow> (\<And>x. x \<in> set ys \<Longrightarrow> f x = g x) \<Longrightarrow> some f xs = some g ys"
  by (induction ys arbitrary: xs) (auto split: sum.splits)

text \<open>\<^verbatim>\<open>isPlainRecord\<close>: a truthy object that is not an array, a date or a regular
  expression, does not have both a \<^verbatim>\<open>field\<close> and an \<^verbatim>\<open>operator\<close> key, and has neither
  an \<^verbatim>\<open>and\<close> nor an \<^verbatim>\<open>or\<close> key.\<close>

definition isPlainRecord :: "jsval \<Rightarrow> bool" where
  "isPlainRecord v =
     (if \<not> ToBoolean v then False
      else if \<not> isObject v then False
      else if isArray v then False
      else if (case v of JDate a \<Rightarrow> True | JRegExp a \<Rightarrow> True | _ \<Rightarrow> False) then False
      else if has_key ''field'' v \<and> has_key ''operator'' v then False
      else if has_key ''and'' v \<or> has_key ''or'' v then False
      else True)"

text \<open>Nesting depth of a value, for the termination of the evaluator.\<close>

fun depth :: "jsval \<Rightarrow> nat" where
  "depth (JArr a xs) = Suc (foldr max (map depth xs) 0)"
| "depth (JObj a kvs) = Suc (foldr max (map (\<lambda>(k, v). depth v) kvs) 0)"
| "depth v = 0"

text \<open>
  \<^verbatim>\<open>evaluateCondition\<close>. The tests run in the order of the source. A primitive
  that is not null, undefined or a boolean reaches \<^verbatim>\<open>'and' in condition\<close>, where the
  \<^verbatim>\<open>in\<close> operator raises a TypeError; \<^verbatim>\<open>condition.value.every\<close> and
  \<^verbatim>\<open>condition.value.some\<close> raise one when the value is not an array.
\<close>

function evaluateCondition :: "host \<Rightarrow> registry \<Rightarrow> entity \<Rightarrow> jsval \<Rightarrow> error + bool" where
  "evaluateCondition h reg entity condition =
     (if condition = JNull \<or> condition = JUndefined then Inr True
      else if condition = JBool True then Inr True
      else if condition = JBool False then Inr True
      else if isArray condition then
        every (\<lambda>c. evaluateCondition h reg entity c) (elements condition)
      else
        (let condition = (if isPlainRecord condition then matchesAll condition else condition) in
         if \<not> isObject condition then Inl TypeError
         else if has_key ''and'' condition \<and> isArray (get_prop condition ''and'') then
           every (\<lambda>c. evaluateCondition h reg entity c) (elements (get_prop condition ''and''))
         else if has_key ''or'' condition \<and> isArray (get_prop condition ''or'') then
           some (\<lambda>c. evaluateCondition h reg entity c) (elements (get_prop condition ''or''))
         else if get_prop condition ''operator'' = JStr ''and'' then
           (if isArray (get_prop condition ''value'') then
              every (\<lambda>c. evaluateCondition h reg entity c) (elements (get_prop condition ''value''))
            else Inl TypeError)
         else if get_prop condition ''operator'' = JStr ''or'' then
           (if isArray (get_prop condition ''value'') then
              some (\<lambda>c. evaluateCondition h reg entity c) (elements (get_prop condition ''value''))
            else Inl TypeError)
         else if get_prop condition ''operator'' = JStr ''not'' then
           (case evaluateCondition h reg entity (get_prop condition ''value'') of
              Inl e \<Rightarrow> Inl e
            | Inr b \<Rightarrow> Inr (\<not> b))
         else
           (case reg (String_js h (get_prop condition ''operator'')) of
              None \<Rightarrow> Inr False
            | Some evaluator \<Rightarrow>
                evaluator (entity_get entity (String_js h (get_prop condition ''field'')))
                  (get_prop condition ''value'') entity condition)))"
  by pat_completeness auto

subsection \<open>Termination of the evaluator\<close>

text \<open>A call on a nested value lowers the depth; the calls on the equality conditions that
  replace a plain mapping keep the depth and leave the plain mappings.\<close>

lemma foldr_max_mem: "n \<in> set ns \<Longrightarrow> n \<le> foldr max ns (m::nat)"
  by (induction ns) auto

lemma depth_element: "x \<in> set xs \<Longrightarrow> depth x < depth (JArr a xs)"
  using foldr_max_mem[of "depth x" "map depth xs" 0] by (auto simp: less_Suc_eq_le)

lemma depth_entry: "(k, v) \<in> set kvs \<Longrightarrow> depth v < depth (JObj a kvs)"
  using foldr_max_mem[of "depth v" "map (\<lambda>(k, v). depth v) kvs" 0] by (force simp: less_Suc_eq_le)

lemma depth_get_prop: "get_prop c k \<noteq> JUndefined \<Longrightarrow> depth (get_prop c k) < depth c"
  by (cases c) (auto split: option.splits dest!: map_of_SomeD depth_entry)

lemma depth_get_prop_element: "x \<in> set (elements (get_prop c k)) \<Longrightarrow> Suc (depth x) < depth c"
proof -
  assume x: "x \<in> set (elements (get_prop c k))"
  then obtain a xs where g: "get_prop c k = JArr a xs" and "x \<in> set xs"
    by (cases "get_prop c k") auto
  then have "depth x < depth (get_prop c k)" using depth_element by simp
  moreover have "depth (get_prop c k) < depth c" using g depth_get_prop[of c k] by simp
  ultimately show ?thesis by simp
qed

lemma depth_matchesAll_element:
  "isPlainRecord c \<Longrightarrow> x \<in> set (elements (get_prop (matchesAll c) ''and'')) \<Longrightarrow>
   depth x \<le> depth c \<and> \<not> isPlainRecord x"
  apply (cases c)
  apply (auto simp: matchesAll_def builders_eq_def single_def isPlainRecord_def less_Suc_eq_le dest!: depth_entry[where a=0])
  done

lemma matchesAll_shape [simp]:
  "isObject (matchesAll c)" "has_key ''and'' (matchesAll c)"
  "isArray (get_prop (matchesAll c) ''and'')"
  by (simp_all add: matchesAll_def)

definition weight :: "jsval \<Rightarrow> nat" where
  "weight c = 2 * depth c + (if isPlainRecord c then 1 else 0)"

lemma weight_plain_element:
  "isPlainRecord c \<Longrightarrow> x \<in> set (elements (get_prop (matchesAll c) ''and'')) \<Longrightarrow>
   weight x < weight c"
  using depth_matchesAll_element[of c x] by (simp add: weight_def)

lemma weight_element: "x \<in> set (elements c) \<Longrightarrow> weight x < weight c"
  by (cases c) (auto simp: weight_def dest: depth_element)

lemma weight_get_prop_element:
  "x \<in> set (elements (get_prop c k)) \<Longrightarrow> weight x < weight c"
  using depth_get_prop_element[of x c k] by (simp add: weight_def)

lemma weight_get_prop:
  "get_prop c k \<noteq> JUndefined \<Longrightarrow> weight (get_prop c k') < weight c"
proof -
  assume k: "get_prop c k \<noteq> JUndefined"
  then have "0 < depth c" by (cases c) auto
  moreover have "get_prop c k' \<noteq> JUndefined \<Longrightarrow> depth (get_prop c k') < depth c"
    by (rule depth_get_prop)
  moreover have "weight JUndefined = 0" by (simp add: weight_def isPlainRecord_def)
  ultimately show ?thesis by (cases "get_prop c k' = JUndefined") (auto simp: weight_def)
qed

termination evaluateCondition
proof (relation "measure (\<lambda>(h, reg, entity, c). weight c)", goal_cases)
  case 1
  show ?case by simp
next
  case (2 h reg entity condition x)
  then show ?case by (simp add: weight_element)
next
  case (3 h reg entity condition c' x)
  then show ?case by (auto simp: weight_get_prop_element weight_plain_element split: if_splits)
next
  case (4 h reg entity condition c' x)
  then show ?case by (auto simp: weight_get_prop_element split: if_splits)
next
  case (5 h reg entity condition c' x)
  then show ?case by (auto simp: weight_get_prop_element split: if_splits)
next
  case (6 h reg entity condition c' x)
  then show ?case by (auto simp: weight_get_prop_element split: if_splits)
next
  case (7 h reg entity condition c')
  then show ?case by (auto simp: weight_get_prop[of _ "''operator''"] split: if_splits)
qed

declare evaluateCondition.simps [simp del]

section \<open>Bulk operations (evaluator.ts)\<close>

text \<open>\<^verbatim>\<open>xs.filter(f)\<close> with a callback that may throw.\<close>

fun filter_js :: "('a \<Rightarrow> error + bool) \<Rightarrow> 'a list \<Rightarrow> error + 'a list" where
  "filter_js f [] = Inr []"
| "filter_js f (x # xs) =
     (case f x of
        Inl e \<Rightarrow> Inl e
      | Inr b \<Rightarrow>
          (case filter_js f xs of
             Inl e \<Rightarrow> Inl e
           | Inr ys \<Rightarrow> Inr (if b then x # ys else ys)))"

text \<open>\<^verbatim>\<open>xs.slice(start, end)\<close>: a negative index counts from the end, an index beyond
  the array is clamped, a missing end is the length.\<close>

definition slice :: "'a list \<Rightarrow> int \<Rightarrow> int option \<Rightarrow> 'a list" where
  "slice xs start end =
     (let len = int (length xs);
          k = (if start < 0 then max (len + start) 0 else min start len);
          final = (case end of
                     None \<Rightarrow> len
                   | Some e \<Rightarrow> if e < 0 then max (len + e) 0 else min e len)
      in take (nat (final - k)) (drop (nat k) xs))"

definition getEvaluator :: "host \<Rightarrow> registry \<Rightarrow> jsval \<Rightarrow> entity \<Rightarrow> error + bool" where
  "getEvaluator h reg condition = (\<lambda>entity. evaluateCondition h reg entity condition)"

definition filterEntities :: "host \<Rightarrow> registry \<Rightarrow> entity list \<Rightarrow> jsval \<Rightarrow> error + entity list" where
  "filterEntities h reg entities filter' = filter_js (getEvaluator h reg filter') entities"

text \<open>The scan of \<^verbatim>\<open>findWhere\<close>: \<open>skipped\<close> and \<open>results\<close> are the loop's variables,
  \<^verbatim>\<open>continue\<close> and the end of the body go on with the rest, \<^verbatim>\<open>break\<close> returns. The
  limit is compared only under \<open>hasLimit\<close>.\<close>

fun findWhere_loop ::
  "host \<Rightarrow> registry \<Rightarrow> jsval \<Rightarrow> bool \<Rightarrow> int option \<Rightarrow> int \<Rightarrow> entity list \<Rightarrow> int \<Rightarrow>
   entity list \<Rightarrow> error + entity list" where
  "findWhere_loop h reg filter' hasLimit limit skipCount [] skipped results = Inr results"
| "findWhere_loop h reg filter' hasLimit limit skipCount (entity # rest) skipped results =
     (case evaluateCondition h reg entity filter' of
        Inl e \<Rightarrow> Inl e
      | Inr b \<Rightarrow>
          if b then
            (if skipped < skipCount then
               findWhere_loop h reg filter' hasLimit limit skipCount rest (skipped + 1) results
             else
               (let results = results @ [entity] in
                if hasLimit \<and> (case limit of None \<Rightarrow> False | Some l \<Rightarrow> int (length results) \<ge> l)
                then Inr results
                else findWhere_loop h reg filter' hasLimit limit skipCount rest skipped results))
          else findWhere_loop h reg filter' hasLimit limit skipCount rest skipped results)"

text \<open>\<^verbatim>\<open>findWhere(entities, {filter, limit, offset})\<close>; a missing limit or offset is
  \<open>None\<close>, a missing filter is undefined. Limit and offset are integers here.\<close>

definition findWhere ::
  "host \<Rightarrow> registry \<Rightarrow> entity list \<Rightarrow> jsval \<Rightarrow> int option \<Rightarrow> int option \<Rightarrow> error + entity list" where
  "findWhere h reg entities filter' limit offset =
     (if \<not> ToBoolean filter' then
        (let start = (case offset of None \<Rightarrow> 0 | Some off \<Rightarrow> off);
             end = (case limit of None \<Rightarrow> None | Some l \<Rightarrow> Some (start + l))
         in Inr (slice entities start end))
      else
        (let hasLimit = (case limit of None \<Rightarrow> False | Some l \<Rightarrow> l > 0);
             skipCount = (case offset of None \<Rightarrow> 0 | Some off \<Rightarrow> off)
         in findWhere_loop h reg filter' hasLimit limit skipCount entities 0 []))"

section \<open>A host to run examples on\<close>

text \<open>
  A small host for closed instances. Its regular-expression engine knows one pattern
  source, \<^verbatim>\<open>hello\<close> (compiled at address 1, found anywhere in the string); schema 0
  accepts strings and every other schema throws; only two numbers compare; a number
  converts to its decimal digits and anything else as a plain object does.
\<close>

fun decimal :: "nat \<Rightarrow> string" where
  "decimal n =
     (if n < 10 then [char_of (48 + n)] else decimal (n div 10) @ [char_of (48 + n mod 10)])"

declare decimal.simps [simp del]

definition exampleHost :: host where
  "exampleHost =
     \<lparr> js_ToString = (\<lambda>v. case v of
           JNum n \<Rightarrow> (if n < 0 then CHR ''-'' # decimal (nat (- n)) else decimal (nat n))
         | _ \<Rightarrow> ''[object Object]''),
       js_lt = (\<lambda>x y. case x of JNum a \<Rightarrow> (case y of JNum b \<Rightarrow> a < b | _ \<Rightarrow> False) | _ \<Rightarrow> False),
       js_le = (\<lambda>x y. case x of JNum a \<Rightarrow> (case y of JNum b \<Rightarrow> a \<le> b | _ \<Rightarrow> False) | _ \<Rightarrow> False),
       js_gt = (\<lambda>x y. case x of JNum a \<Rightarrow> (case y of JNum b \<Rightarrow> a > b | _ \<Rightarrow> False) | _ \<Rightarrow> False),
       js_ge = (\<lambda>x y. case x of JNum a \<Rightarrow> (case y of JNum b \<Rightarrow> a \<ge> b | _ \<Rightarrow> False) | _ \<Rightarrow> False),
       regexp_new = (\<lambda>src. if src = ''hello'' then Some 1 else None),
       regexp_test = (\<lambda>p s. p = 1 \<and> string_includes s ''hello''),
       schema_safeParse = (\<lambda>s v. if s = 0 then Inr (isString v) else Inl Thrown) \<rparr>"

text \<open>The records of the specification's scenarios.\<close>

definition John :: entity where
  "John = [(''name'', JStr ''John''), (''age'', JNum 25), (''status'', JStr ''active''),
           (''tags'', JArr 1 [JStr ''vip''])]"

definition Jane :: entity where
  "Jane = [(''name'', JStr ''Jane''), (''age'', JNum 30), (''status'', JStr ''active''),
           (''tags'', JArr 2 [])]"

definition Bob :: entity where
  "Bob = [(''name'', JStr ''Bob''), (''age'', JNum 18), (''status'', JStr ''inactive''),
          (''tags'', JArr 3 [])]"

text \<open>A condition that asks schema 1 about the name; on \<open>exampleHost\<close> that schema
  throws.\<close>

definition throwingSchemaCondition :: jsval where
  "throwingSchemaCondition =
     JObj 4 [(''field'', JStr ''name''), (''operator'', JStr ''matchesZodSchema''),
             (''value'', JSchema 1)]"

section \<open>Forms the claims speak of\<close>

text \<open>The Negation variant of \<^verbatim>\<open>FilterCondition\<close> (types.ts):
  \<^verbatim>\<open>{ operator: ConditionOperator.NOT, value: FilterCondition }\<close>. The repository has no
  builder for it.\<close>

definition Negation :: "jsval \<Rightarrow> jsval" where
  "Negation c = JObj 0 [(''operator'', JStr ''not''), (''value'', c)]"

text \<open>\<^verbatim>\<open>x && y\<close> and \<^verbatim>\<open>x || y\<close> on two evaluations: the right one counts only when
  the left one did not throw and did not decide.\<close>

definition and_js :: "error + bool \<Rightarrow> error + bool \<Rightarrow> error + bool" where
  "and_js x y = (case x of Inl e \<Rightarrow> Inl e | Inr b \<Rightarrow> if b then y else Inr False)"

definition or_js :: "error + bool \<Rightarrow> error + bool \<Rightarrow> error + bool" where
  "or_js x y = (case x of Inl e \<Rightarrow> Inl e | Inr b \<Rightarrow> if b then Inr True else y)"

section \<open>How the evaluator unfolds on each shape of filter\<close>

lemma evaluateCondition_and_key:
  "map_of kvs ''and'' = Some (JArr b seq) \<Longrightarrow>
   evaluateCondition h reg r (JObj a kvs) = every (evaluateCondition h reg r) seq"
  by (subst evaluateCondition.simps) (simp add: isPlainRecord_def Let_def)

lemma evaluateCondition_or_key:
  "map_of kvs ''and'' = None \<Longrightarrow> map_of kvs ''or'' = Some (JArr b seq) \<Longrightarrow>
   evaluateCondition h reg r (JObj a kvs) = some (evaluateCondition h reg r) seq"
  by (subst evaluateCondition.simps) (simp add: isPlainRecord_def Let_def)

lemma evaluateCondition_plain:
  "isPlainRecord (JObj a kvs) \<Longrightarrow>
   evaluateCondition h reg r (JObj a kvs) =
     every (evaluateCondition h reg r) (map (\<lambda>(k, v). builders_eq k v) kvs)"
  by (subst evaluateCondition.simps) (simp add: matchesAll_def Let_def)


lemma evaluateCondition_operator_and:
  "evaluateCondition h reg r
     (JObj a [(''field'', f), (''operator'', JStr ''and''), (''value'', JArr b seq)]) =
   every (evaluateCondition h reg r) seq"
  by (subst evaluateCondition.simps) (simp add: isPlainRecord_def Let_def)

lemma evaluateCondition_operator_or:
  "evaluateCondition h reg r
     (JObj a [(''field'', f), (''operator'', JStr ''or''), (''value'', JArr b seq)]) =
   some (evaluateCondition h reg r) seq"
  by (subst evaluateCondition.simps) (simp add: isPlainRecord_def Let_def)

lemma evaluateCondition_operator_not:
  "evaluateCondition h reg r (JObj a [(''field'', f), (''operator'', JStr ''not''), (''value'', c)]) =
   (case evaluateCondition h reg r c of Inl e \<Rightarrow> Inl e | Inr b \<Rightarrow> Inr (\<not> b))"
  by (subst evaluateCondition.simps) (simp add: isPlainRecord_def Let_def)

text \<open>Without a \<^verbatim>\<open>field\<close> key the same object passes \<open>isPlainRecord\<close> and is compared,
  key by key, with the record.\<close>

lemma evaluateCondition_fieldless_operator:
  "evaluateCondition h reg r (JObj a [(''operator'', JStr op), (''value'', v)]) =
   every (evaluateCondition h reg r)
     [builders_eq ''operator'' (JStr op), builders_eq ''value'' v]"
  by (simp add: evaluateCondition_plain isPlainRecord_def)

lemma evaluateCondition_bool: "evaluateCondition h reg r (JBool b) = Inr True"
  by (subst evaluateCondition.simps) simp

lemma evaluateCondition_absent:
  "evaluateCondition h reg r JNull = Inr True" "evaluateCondition h reg r JUndefined = Inr True"
  by (simp_all add: evaluateCondition.simps)

text \<open>The conditions that the \<^verbatim>\<open>and\<close> builder drops among null, undefined and false
  evaluate true.\<close>

lemma evaluateCondition_dropped:
  "\<not> ToBoolean c \<Longrightarrow> c = JNull \<or> c = JUndefined \<or> c = JBool False \<Longrightarrow>
   evaluateCondition h reg r c = Inr True"
  using evaluateCondition_absent[of h reg r] evaluateCondition_bool[of h reg r False] by auto

section \<open>Scans with a callback that may throw\<close>

lemma every_one: "every f [c] = f c"
  by (cases "f c") auto

lemma every_two: "every f [c, d] = and_js (f c) (f d)"
  by (cases "f c"; cases "f d") (auto simp: and_js_def)

lemma some_two: "some f [c, d] = or_js (f c) (f d)"
  by (cases "f c"; cases "f d") (auto simp: or_js_def)

lemma and_js_True: "and_js (Inr True) y = y" "and_js x (Inr True) = x"
  by (cases x; auto simp: and_js_def)+

lemma every_True_iff: "every f xs = Inr True \<longleftrightarrow> (\<forall>x\<in>set xs. f x = Inr True)"
  by (induction xs) (auto split: sum.splits)

lemma some_True_iff:
  "some f xs = Inr True \<longleftrightarrow>
   (\<exists>pre c post. xs = pre @ c # post \<and> f c = Inr True \<and> (\<forall>p\<in>set pre. f p = Inr False))"
proof (induction xs)
  case Nil
  show ?case by simp
next
  case (Cons x xs)
  show ?case
  proof (cases "f x")
    case (Inl e)
    have "\<not> (\<exists>pre c post. x # xs = pre @ c # post \<and> f c = Inr True \<and> (\<forall>p\<in>set pre. f p = Inr False))"
    proof
      assume "\<exists>pre c post. x # xs = pre @ c # post \<and> f c = Inr True \<and> (\<forall>p\<in>set pre. f p = Inr False)"
      then obtain pre c post where d: "x # xs = pre @ c # post" "f c = Inr True" "\<forall>p\<in>set pre. f p = Inr False"
        by blast
      then show False using Inl by (cases pre) auto
    qed
    then show ?thesis using Inl by simp
  next
    case (Inr b)
    show ?thesis
    proof (cases b)
      case True
      have "x # xs = [] @ x # xs \<and> f x = Inr True \<and> (\<forall>p\<in>set []. f p = Inr False)"
        using Inr True by simp
      then have "\<exists>pre c post. x # xs = pre @ c # post \<and> f c = Inr True \<and> (\<forall>p\<in>set pre. f p = Inr False)"
        by blast
      then show ?thesis using Inr True by simp
    next
      case False
      have "(\<exists>pre c post. x # xs = pre @ c # post \<and> f c = Inr True \<and> (\<forall>p\<in>set pre. f p = Inr False))
        \<longleftrightarrow> (\<exists>pre c post. xs = pre @ c # post \<and> f c = Inr True \<and> (\<forall>p\<in>set pre. f p = Inr False))"
        (is "?L \<longleftrightarrow> ?R")
      proof
        assume ?L
        then obtain pre c post where d: "x # xs = pre @ c # post" "f c = Inr True" "\<forall>p\<in>set pre. f p = Inr False"
          by blast
        show ?R
        proof (cases pre)
          case Nil
          then show ?thesis using d Inr False by simp
        next
          case (Cons p pre')
          then have "xs = pre' @ c # post \<and> f c = Inr True \<and> (\<forall>p\<in>set pre'. f p = Inr False)"
            using d by simp
          then show ?thesis by blast
        qed
      next
        assume ?R
        then obtain pre c post where d: "xs = pre @ c # post" "f c = Inr True" "\<forall>p\<in>set pre. f p = Inr False"
          by blast
        then have "x # xs = (x # pre) @ c # post \<and> f c = Inr True \<and> (\<forall>p\<in>set (x # pre). f p = Inr False)"
          using Inr False by simp
        then show ?L by blast
      qed
      then show ?thesis using Inr False Cons.IH by simp
    qed
  qed
qed

lemma some_total:
  "\<forall>x\<in>set xs. f x = Inr True \<or> f x = Inr False \<Longrightarrow>
   some f xs = Inr (\<exists>x\<in>set xs. f x = Inr True)"
  by (induction xs) (auto split: sum.splits)

section \<open>The scan of findWhere against filter-then-slice\<close>

lemma slice_take_drop:
  "0 \<le> off \<Longrightarrow> 0 \<le> l \<Longrightarrow> slice ys off (Some (off + l)) = take (nat l) (drop (nat off) ys)"
  by (auto simp: slice_def Let_def min_def max_def nat_diff_distrib intro!: arg_cong2[where f=take])

lemma slice_empty: "slice ys start (Some (start + 0)) = []"
  by (auto simp: slice_def Let_def min_def max_def)

lemma nat_skip_step: "(skipped::int) < skipCount \<Longrightarrow>
   nat (skipCount - skipped) = Suc (nat (skipCount - (skipped + 1)))"
  by simp

lemma findWhere_loop_unlimited:
  "findWhere_loop h reg F False limit skipCount R skipped results =
     (case filter_js (getEvaluator h reg F) R of
        Inl e \<Rightarrow> Inl e
      | Inr ys \<Rightarrow> Inr (results @ drop (nat (skipCount - skipped)) ys))"
proof (induction R arbitrary: skipped results)
  case Nil
  show ?case by simp
next
  case (Cons e R)
  show ?case
    by (auto simp: getEvaluator_def Cons.IH Let_def nat_skip_step split: sum.splits)
qed

lemma findWhere_loop_limited:
  "filter_js (getEvaluator h reg F) R = Inr ys \<Longrightarrow> 0 < l \<Longrightarrow> skipped \<le> skipCount \<Longrightarrow>
   int (length results) < l \<Longrightarrow>
   findWhere_loop h reg F True (Some l) skipCount R skipped results =
     Inr (results @ take (nat l - length results) (drop (nat (skipCount - skipped)) ys))"
proof (induction R arbitrary: skipped results ys)
  case Nil
  then show ?case by simp
next
  case (Cons e R)
  from Cons.prems(1) obtain b ys' where
    b: "evaluateCondition h reg e F = Inr b" and
    ys': "filter_js (getEvaluator h reg F) R = Inr ys'" and
    ys: "ys = (if b then e # ys' else ys')"
    by (auto simp: getEvaluator_def split: sum.splits)
  show ?case
  proof (cases b)
    case False
    then show ?thesis
      using b ys Cons.IH[OF ys' Cons.prems(2,3,4)] by simp
  next
    case True
    show ?thesis
    proof (cases "skipped < skipCount")
      case skip: True
      then have "skipped + 1 \<le> skipCount" by simp
      from Cons.IH[OF ys' Cons.prems(2) this Cons.prems(4)] show ?thesis
        using b ys True skip by (simp add: nat_skip_step)
    next
      case noskip: False
      then have z: "nat (skipCount - skipped) = 0" by simp
      show ?thesis
      proof (cases "l \<le> int (length (results @ [e]))")
        case stop: True
        then have "nat l - length results = Suc 0" using Cons.prems(4) by simp
        then show ?thesis using b ys True noskip stop z by simp
      next
        case go: False
        then have lt: "int (length (results @ [e])) < l" by simp
        have "nat l - length results = Suc (nat l - length (results @ [e]))"
          using go by simp
        then show ?thesis
          using Cons.IH[OF ys' Cons.prems(2,3) lt] b ys True noskip go z by simp
      qed
    qed
  qed
qed

lemma filterEntities_falsy:
  "\<not> ToBoolean F \<Longrightarrow> filterEntities h reg R F = Inr ys \<Longrightarrow> ys = R"
proof (induction R arbitrary: ys)
  case Nil
  then show ?case by (simp add: filterEntities_def)
next
  case (Cons e R)
  have "evaluateCondition h reg e F = Inr True \<or> evaluateCondition h reg e F = Inl TypeError"
    using Cons.prems(1)
    by (cases F) (simp_all add: evaluateCondition.simps[of h reg e] isPlainRecord_def Let_def)
  then show ?case
    using Cons by (auto simp: filterEntities_def getEvaluator_def split: sum.splits)
qed

text \<open>For an integer limit above 0 and an integer offset from 0 on, the scan with its
  early end returns what filter-then-slice returns, whenever the filter throws on no
  record.\<close>

lemma findWhere_filter_then_slice:
  "0 < l \<Longrightarrow> 0 \<le> off \<Longrightarrow> filterEntities h reg R F = Inr ys \<Longrightarrow>
   findWhere h reg R F (Some l) (Some off) = Inr (slice ys off (Some (off + l)))"
proof -
  assume l: "0 < l" and off: "0 \<le> off" and ys: "filterEntities h reg R F = Inr ys"
  show ?thesis
  proof (cases "ToBoolean F")
    case True
    have "findWhere_loop h reg F True (Some l) off R 0 [] =
            Inr ([] @ take (nat l - length ([]::entity list)) (drop (nat (off - 0)) ys))"
      using ys l off by (intro findWhere_loop_limited) (simp_all add: filterEntities_def)
    then show ?thesis
      using True l off by (simp add: findWhere_def slice_take_drop)
  next
    case False
    then have "ys = R" using ys by (rule filterEntities_falsy)
    then show ?thesis using False by (simp add: findWhere_def)
  qed
qed

section \<open>The claims\<close>

text \<open>Claim C1: the dedicated-key form and the Single-Condition form of a combinator
  evaluate alike, and a fieldless \<^verbatim>\<open>{operator:'or', value:[...]}\<close> is the combinator, not a
  key/value mapping. On the record John, with \<open>c\<close> the condition \<^verbatim>\<open>eq('name','John')\<close>,
  \<^verbatim>\<open>{or:[c]}\<close> is true, while the fieldless \<^verbatim>\<open>{operator:'or', value:[c]}\<close> passes
  \<open>isPlainRecord\<close>, is compared with John's (missing) \<^verbatim>\<open>operator\<close> property and is false. With a \<^verbatim>\<open>field\<close> key the two forms do
  agree (\<open>evaluateCondition_operator_or\<close>).\<close>

theorem C1_fieldless_operator_form_is_plain_mapping:
  "evaluateCondition exampleHost (operatorEvaluators exampleHost) John
     (JObj 4 [(''or'', JArr 5 [builders_eq ''name'' (JStr ''John'')])]) = Inr True \<and>
   evaluateCondition exampleHost (operatorEvaluators exampleHost) John
     (JObj 6 [(''operator'', JStr ''or''),
              (''value'', JArr 5 [builders_eq ''name'' (JStr ''John'')])]) = Inr False"
  by code_simp

text \<open>Claim C2: for every filter, offset and limit, limit 0 included, \<^verbatim>\<open>findWhere\<close> returns
  \<^verbatim>\<open>filterEntities(R, F).slice(o, o + l)\<close>. At limit 0 and offset 0, with the filter
  \<^verbatim>\<open>eq('status','active')\<close> over the three records, it returns both active records where
  \<^verbatim>\<open>[John, Jane].slice(0, 0)\<close> is empty: \<open>hasLimit\<close> asks for a limit above 0, so the scan
  is not bounded, although the limit is documented as the maximum number of results and
  the branch without a filter returns the empty slice for it.\<close>

theorem C2_limit_zero_returns_all_matches:
  "findWhere exampleHost (operatorEvaluators exampleHost) [John, Jane, Bob]
     (builders_eq ''status'' (JStr ''active'')) (Some 0) (Some 0) = Inr [John, Jane] \<and>
   filterEntities exampleHost (operatorEvaluators exampleHost) [John, Jane, Bob]
     (builders_eq ''status'' (JStr ''active'')) = Inr [John, Jane] \<and>
   slice [John, Jane] 0 (Some (0 + 0)) = [] \<and>
   findWhere exampleHost (operatorEvaluators exampleHost) [John, Jane, Bob]
     (builders_eq ''status'' (JStr ''active'')) (Some 0) (Some 0) \<noteq>
     Inr (slice [John, Jane] 0 (Some (0 + 0))) \<and>
   findWhere exampleHost (operatorEvaluators exampleHost) [John, Jane, Bob]
     JUndefined (Some 0) (Some 0) = Inr []"
  by code_simp

text \<open>Claim C3: for every record, \<^verbatim>\<open>evaluateCondition(r, true)\<close> and
  \<^verbatim>\<open>evaluateCondition(r, false)\<close> are both true.\<close>

theorem C3_boolean_literal_true:
  "evaluateCondition h reg r (JBool b) = Inr True"
  by (rule evaluateCondition_bool)

text \<open>Both literals on the record John.\<close>

theorem C3_boolean_literal_true_witness:
  "evaluateCondition exampleHost (operatorEvaluators exampleHost) John (JBool True) = Inr True \<and>
   evaluateCondition exampleHost (operatorEvaluators exampleHost) John (JBool False) = Inr True"
  using C3_boolean_literal_true[of exampleHost "operatorEvaluators exampleHost" John True]
        C3_boolean_literal_true[of exampleHost "operatorEvaluators exampleHost" John False]
  by simp

text \<open>Claim C4: \<^verbatim>\<open>evaluateCondition\<close> never raises on a malformed filter and returns false
  instead. A condition \<^verbatim>\<open>{field:'age', operator:'and', value:5}\<close> reaches
  \<^verbatim>\<open>condition.value.every\<close> with a number and raises a TypeError; the dedicated-key form
  \<^verbatim>\<open>{and: 5}\<close> is guarded by \<^verbatim>\<open>Array.isArray\<close> and is false.\<close>

theorem C4_and_operator_on_non_array_raises:
  "evaluateCondition exampleHost (operatorEvaluators exampleHost) John
     (JObj 4 [(''field'', JStr ''age''), (''operator'', JStr ''and''), (''value'', JNum 5)])
   = Inl TypeError \<and>
   evaluateCondition exampleHost (operatorEvaluators exampleHost) John
     (JObj 4 [(''and'', JNum 5)]) = Inr False"
  by code_simp




text \<open>The identifiers left out of the amended claim: \<^verbatim>\<open>__proto__\<close> has no entry in the
  registry and the condition raises; \<^verbatim>\<open>constructor\<close> has none and the condition is
  truthy.\<close>

lemma evaluateCondition_inherited_operator:
  "map_of (builtinEvaluators exampleHost) ''__proto__'' = None \<and>
   evaluateCondition exampleHost (operatorEvaluators exampleHost) John
     (JObj 4 [(''field'', JStr ''age''), (''operator'', JStr ''__proto__''), (''value'', JNum 1)])
   = Inl TypeError \<and>
   map_of (builtinEvaluators exampleHost) ''constructor'' = None \<and>
   evaluateCondition exampleHost (operatorEvaluators exampleHost) John
     (JObj 4 [(''field'', JStr ''age''), (''operator'', JStr ''constructor''), (''value'', JNum 1)])
   = Inr True"
  by code_simp

text \<open>Claim C6: \<^verbatim>\<open>evaluate(r, NOT(NOT(C))) = evaluate(r, C)\<close>, with NOT the Negation
  variant \<^verbatim>\<open>{operator:'not', value:C}\<close>. For \<open>C\<close> the condition \<^verbatim>\<open>eq('name','John')\<close> on
  John the right side is true;
  the left side is false, because the variant has no \<^verbatim>\<open>field\<close> key, passes
  \<open>isPlainRecord\<close> and is compared with John's properties. With a \<^verbatim>\<open>field\<close> key the
  negation is evaluated as one (\<open>evaluateCondition_operator_not\<close>).\<close>

theorem C6_double_negation_of_fieldless_not:
  "evaluateCondition exampleHost (operatorEvaluators exampleHost) John
     (builders_eq ''name'' (JStr ''John'')) = Inr True \<and>
   evaluateCondition exampleHost (operatorEvaluators exampleHost) John
     (Negation (Negation (builders_eq ''name'' (JStr ''John'')))) = Inr False"
  by code_simp

text \<open>Claim C7: a plain key/value mapping evaluates as the conjunction, built with
  \<^verbatim>\<open>and\<close> and \<^verbatim>\<open>eq\<close>, of one equality condition per key; for two keys,
  \<^verbatim>\<open>evaluate(r, {k1:v1, k2:v2}) = evaluate(r, and(eq(k1,v1), eq(k2,v2)))\<close>. Both sides give
  the same boolean or raise the same exception, for every registry.\<close>

theorem C7_plain_mapping_sugar:
  "isPlainRecord (JObj a kvs) \<Longrightarrow>
   evaluateCondition h reg r (JObj a kvs) =
     evaluateCondition h reg r (builders_and (map (\<lambda>(k, v). builders_eq k v) kvs))"
proof -
  assume plain: "isPlainRecord (JObj a kvs)"
  have kept: "filter ToBoolean (map (\<lambda>(k, v). builders_eq k v) kvs) =
              map (\<lambda>(k, v). builders_eq k v) kvs"
    by (induction kvs) (auto simp: builders_eq_def single_def)
  show ?thesis
    by (simp add: evaluateCondition_plain[OF plain] builders_and_def kept
        evaluateCondition_and_key)
qed

text \<open>The mapping \<^verbatim>\<open>{name:'John', status:'active'}\<close> on John.\<close>

theorem C7_plain_mapping_sugar_witness:
  "isPlainRecord (JObj 4 [(''name'', JStr ''John''), (''status'', JStr ''active'')]) \<and>
   evaluateCondition exampleHost (operatorEvaluators exampleHost) John
     (JObj 4 [(''name'', JStr ''John''), (''status'', JStr ''active'')]) =
   evaluateCondition exampleHost (operatorEvaluators exampleHost) John
     (builders_and [builders_eq ''name'' (JStr ''John''), builders_eq ''status'' (JStr ''active'')]) \<and>
   evaluateCondition exampleHost (operatorEvaluators exampleHost) John
     (JObj 4 [(''name'', JStr ''John''), (''status'', JStr ''active'')]) = Inr True"
proof -
  have plain: "isPlainRecord (JObj 4 [(''name'', JStr ''John''), (''status'', JStr ''active'')])"
    by (simp add: isPlainRecord_def)
  have val: "evaluateCondition exampleHost (operatorEvaluators exampleHost) John
     (JObj 4 [(''name'', JStr ''John''), (''status'', JStr ''active'')]) = Inr True"
    by code_simp
  show ?thesis
    using plain val C7_plain_mapping_sugar[OF plain, of exampleHost "operatorEvaluators exampleHost" John]
    by simp
qed

text \<open>Claim C8, as stated, for a disjunction: \<^verbatim>\<open>null\<close> evaluates true on John, yet
  \<^verbatim>\<open>{or: [c, null]}\<close> does not evaluate true when the schema that \<open>c\<close> asks throws: the
  exception leaves the scan before \<^verbatim>\<open>null\<close> is reached.\<close>

theorem C8_or_raising_element_counterexample:
  "evaluateCondition exampleHost (operatorEvaluators exampleHost) John JNull = Inr True \<and>
   evaluateCondition exampleHost (operatorEvaluators exampleHost) John
     (JObj 5 [(''or'', JArr 6 [throwingSchemaCondition, JNull])]) = Inl Thrown"
  by code_simp

text \<open>Claim C8, amended: \<^verbatim>\<open>{and: seq}\<close> evaluates true iff every element evaluates true;
  \<^verbatim>\<open>{or: seq}\<close> evaluates true iff some element evaluates true and every element before it
  evaluates false, which is: iff at least one element evaluates true, when every element
  evaluates to a boolean. The empty conjunction is true and the empty disjunction false;
  \<^verbatim>\<open>{and: [C1, C2]}\<close> is \<^verbatim>\<open>evaluate(r,C1) && evaluate(r,C2)\<close> and \<^verbatim>\<open>{or: [C1, C2]}\<close> is
  \<^verbatim>\<open>evaluate(r,C1) || evaluate(r,C2)\<close>, and so are the conditions that the builders
  \<^verbatim>\<open>or(C1, C2)\<close> and \<^verbatim>\<open>and(C1, C2)\<close> make (the latter for conditions that are objects,
  arrays, true, or one of the null, undefined and false it drops).\<close>

theorem C8_and_or_semantics:
  "(evaluateCondition h reg r (JObj a [(''and'', JArr b seq)]) = Inr True \<longleftrightarrow>
      (\<forall>c\<in>set seq. evaluateCondition h reg r c = Inr True)) \<and>
   (evaluateCondition h reg r (JObj a [(''or'', JArr b seq)]) = Inr True \<longleftrightarrow>
      (\<exists>pre c post. seq = pre @ c # post \<and> evaluateCondition h reg r c = Inr True \<and>
         (\<forall>p\<in>set pre. evaluateCondition h reg r p = Inr False))) \<and>
   ((\<forall>c\<in>set seq. evaluateCondition h reg r c = Inr True \<or> evaluateCondition h reg r c = Inr False) \<longrightarrow>
      evaluateCondition h reg r (JObj a [(''or'', JArr b seq)]) =
        Inr (\<exists>c\<in>set seq. evaluateCondition h reg r c = Inr True)) \<and>
   evaluateCondition h reg r (JObj a [(''and'', JArr b [])]) = Inr True \<and>
   evaluateCondition h reg r (JObj a [(''or'', JArr b [])]) = Inr False \<and>
   evaluateCondition h reg r (JObj a [(''and'', JArr b [C1, C2])]) =
     and_js (evaluateCondition h reg r C1) (evaluateCondition h reg r C2) \<and>
   evaluateCondition h reg r (JObj a [(''or'', JArr b [C1, C2])]) =
     or_js (evaluateCondition h reg r C1) (evaluateCondition h reg r C2) \<and>
   evaluateCondition h reg r (builders_or [C1, C2]) =
     or_js (evaluateCondition h reg r C1) (evaluateCondition h reg r C2) \<and>
   ((ToBoolean C1 \<or> C1 = JNull \<or> C1 = JUndefined \<or> C1 = JBool False) \<and>
    (ToBoolean C2 \<or> C2 = JNull \<or> C2 = JUndefined \<or> C2 = JBool False) \<longrightarrow>
    evaluateCondition h reg r (builders_and [C1, C2]) =
      and_js (evaluateCondition h reg r C1) (evaluateCondition h reg r C2))"
proof -
  have conj: "\<And>xs. evaluateCondition h reg r (JObj a [(''and'', JArr b xs)]) =
      every (evaluateCondition h reg r) xs"
    by (simp add: evaluateCondition_and_key)
  have disj: "\<And>xs. evaluateCondition h reg r (JObj a [(''or'', JArr b xs)]) =
      some (evaluateCondition h reg r) xs"
    by (simp add: evaluateCondition_or_key)
  have 1: "evaluateCondition h reg r (JObj a [(''and'', JArr b seq)]) = Inr True \<longleftrightarrow>
      (\<forall>c\<in>set seq. evaluateCondition h reg r c = Inr True)"
    unfolding conj by (rule every_True_iff)
  have 2: "evaluateCondition h reg r (JObj a [(''or'', JArr b seq)]) = Inr True \<longleftrightarrow>
      (\<exists>pre c post. seq = pre @ c # post \<and> evaluateCondition h reg r c = Inr True \<and>
         (\<forall>p\<in>set pre. evaluateCondition h reg r p = Inr False))"
    unfolding disj by (rule some_True_iff)
  have 3: "(\<forall>c\<in>set seq. evaluateCondition h reg r c = Inr True \<or> evaluateCondition h reg r c = Inr False) \<longrightarrow>
      evaluateCondition h reg r (JObj a [(''or'', JArr b seq)]) =
        Inr (\<exists>c\<in>set seq. evaluateCondition h reg r c = Inr True)"
    unfolding disj using some_total[of seq "evaluateCondition h reg r"] by blast
  have 4: "evaluateCondition h reg r (JObj a [(''and'', JArr b [])]) = Inr True"
    unfolding conj by simp
  have 5: "evaluateCondition h reg r (JObj a [(''or'', JArr b [])]) = Inr False"
    unfolding disj by simp
  have 6: "evaluateCondition h reg r (JObj a [(''and'', JArr b [C1, C2])]) =
     and_js (evaluateCondition h reg r C1) (evaluateCondition h reg r C2)"
    unfolding conj by (rule every_two)
  have 7: "evaluateCondition h reg r (JObj a [(''or'', JArr b [C1, C2])]) =
     or_js (evaluateCondition h reg r C1) (evaluateCondition h reg r C2)"
    unfolding disj by (rule some_two)
  have 8: "evaluateCondition h reg r (builders_or [C1, C2]) =
     or_js (evaluateCondition h reg r C1) (evaluateCondition h reg r C2)"
    by (simp add: builders_or_def evaluateCondition_or_key some_two del: some.simps)
  have 9: "evaluateCondition h reg r (builders_and [C1, C2]) =
      and_js (evaluateCondition h reg r C1) (evaluateCondition h reg r C2)"
    if c1: "ToBoolean C1 \<or> C1 = JNull \<or> C1 = JUndefined \<or> C1 = JBool False"
    and c2: "ToBoolean C2 \<or> C2 = JNull \<or> C2 = JUndefined \<or> C2 = JBool False"
  proof -
    have d1: "\<not> ToBoolean C1 \<Longrightarrow> evaluateCondition h reg r C1 = Inr True"
      using c1 evaluateCondition_dropped by blast
    have d2: "\<not> ToBoolean C2 \<Longrightarrow> evaluateCondition h reg r C2 = Inr True"
      using c2 evaluateCondition_dropped by blast
    show ?thesis
      by (cases "ToBoolean C1"; cases "ToBoolean C2")
         (simp_all add: builders_and_def evaluateCondition_and_key every_two every_one
            and_js_True d1 d2 del: every.simps(2))
  qed
  from 1 2 3 4 5 6 7 8 9 show ?thesis by blast
qed

text \<open>The second scenario's conjunction (active and older than 20) and a disjunction
  whose second element decides, on John.\<close>

theorem C8_and_or_semantics_witness:
  "evaluateCondition exampleHost (operatorEvaluators exampleHost) John
     (builders_eq ''status'' (JStr ''active'')) = Inr True \<and>
   evaluateCondition exampleHost (operatorEvaluators exampleHost) John
     (single ''age'' ''gt'' (JNum 20)) = Inr True \<and>
   evaluateCondition exampleHost (operatorEvaluators exampleHost) John
     (builders_eq ''name'' (JStr ''Jane'')) = Inr False \<and>
   evaluateCondition exampleHost (operatorEvaluators exampleHost) John
     (JObj 0 [(''and'', JArr 0 [builders_eq ''status'' (JStr ''active''),
                                single ''age'' ''gt'' (JNum 20)])]) = Inr True \<and>
   evaluateCondition exampleHost (operatorEvaluators exampleHost) John
     (JObj 0 [(''or'', JArr 0 [builders_eq ''name'' (JStr ''Jane''),
                               builders_eq ''status'' (JStr ''active'')])]) = Inr True"
proof -
  let ?ev = "evaluateCondition exampleHost (operatorEvaluators exampleHost) John"
  have active: "?ev (builders_eq ''status'' (JStr ''active'')) = Inr True"
    and adult: "?ev (single ''age'' ''gt'' (JNum 20)) = Inr True"
    and jane: "?ev (builders_eq ''name'' (JStr ''Jane'')) = Inr False"
    by code_simp+
  have every: "\<forall>c\<in>set [builders_eq ''status'' (JStr ''active''), single ''age'' ''gt'' (JNum 20)].
      ?ev c = Inr True"
    using active adult by simp
  have found: "[builders_eq ''name'' (JStr ''Jane''), builders_eq ''status'' (JStr ''active'')] =
      [builders_eq ''name'' (JStr ''Jane'')] @ builders_eq ''status'' (JStr ''active'') # [] \<and>
      ?ev (builders_eq ''status'' (JStr ''active'')) = Inr True \<and>
      (\<forall>p\<in>set [builders_eq ''name'' (JStr ''Jane'')]. ?ev p = Inr False)"
    using active jane by simp
  note sem = C8_and_or_semantics[of exampleHost "operatorEvaluators exampleHost" John 0 0]
  have conj: "?ev (JObj 0 [(''and'', JArr 0 [builders_eq ''status'' (JStr ''active''),
                                single ''age'' ''gt'' (JNum 20)])]) = Inr True"
    using every sem[of "[builders_eq ''status'' (JStr ''active''), single ''age'' ''gt'' (JNum 20)]"]
    by blast
  have disj: "?ev (JObj 0 [(''or'', JArr 0 [builders_eq ''name'' (JStr ''Jane''),
                               builders_eq ''status'' (JStr ''active'')])]) = Inr True"
    using found
      sem[of "[builders_eq ''name'' (JStr ''Jane''), builders_eq ''status'' (JStr ''active'')]"]
    by blast
  show ?thesis using active adult jane conj disj by simp
qed

text \<open>Claim C9: \<^verbatim>\<open>matches\<close> takes a compiled pattern or a pattern source. A source that
  does not compile gives false, a field value that is not a string gives false, and
  otherwise the result is the pattern's test on the string. No case raises.\<close>

theorem C9_matches:
  "(regexp_new h src = None \<longrightarrow> matches h x (JStr src) = False) \<and>
   (\<not> isString x \<longrightarrow> matches h x pattern = False) \<and>
   matches h (JStr s) (JRegExp p) = regexp_test h p s \<and>
   (regexp_new h src = Some p \<longrightarrow> matches h (JStr s) (JStr src) = regexp_test h p s)"
  by (cases x) (auto simp: matches_def split: option.splits)

text \<open>An unparsable source, a number as field value, and the pattern \<^verbatim>\<open>hello\<close>, compiled and
  as a source.\<close>

theorem C9_matches_witness:
  "regexp_new exampleHost ''('' = None \<and>
   matches exampleHost (JStr ''hello world'') (JStr ''('') = False \<and>
   \<not> isString (JNum 5) \<and>
   matches exampleHost (JNum 5) (JStr ''hello'') = False \<and>
   matches exampleHost (JStr ''say hello'') (JRegExp 1) = regexp_test exampleHost 1 ''say hello'' \<and>
   regexp_new exampleHost ''hello'' = Some 1 \<and>
   matches exampleHost (JStr ''say hello'') (JStr ''hello'') = True"
proof -
  have bad: "regexp_new exampleHost ''('' = None" and good: "regexp_new exampleHost ''hello'' = Some 1"
    by (simp_all add: exampleHost_def)
  have t: "regexp_test exampleHost 1 ''say hello''"
    by (simp add: exampleHost_def prefix_def)
  show ?thesis
    using bad good t
      C9_matches[of exampleHost "''(''" "JStr ''hello world''" "JStr ''(''" "''say hello''" 1]
      C9_matches[of exampleHost "''hello''" "JNum 5" "JStr ''hello''" "''say hello''" 1]
    by simp
qed

text \<open>Claim C10: with a filter, a limit of 0 is ignored: the result is the one without
  a limit, all matching records after the offset (or the exception of the first record
  the filter throws on). Without a filter, a limit of 0 gives the empty slice.\<close>

theorem C10_limit_zero_ignored:
  "(ToBoolean F \<longrightarrow>
      findWhere h reg R F (Some 0) offset = findWhere h reg R F None offset \<and>
      findWhere h reg R F (Some 0) offset =
        (case filterEntities h reg R F of
           Inl e \<Rightarrow> Inl e
         | Inr ys \<Rightarrow> Inr (drop (nat (case offset of None \<Rightarrow> 0 | Some off \<Rightarrow> off)) ys))) \<and>
   (\<not> ToBoolean F \<longrightarrow> findWhere h reg R F (Some 0) offset = Inr [])"
  by (auto simp: findWhere_def findWhere_loop_unlimited filterEntities_def slice_empty[simplified]
      split: sum.splits option.splits)

text \<open>The active records after one skipped match, with limit 0 and with no limit; and
  no filter with limit 0.\<close>

theorem C10_limit_zero_ignored_witness:
  "ToBoolean (builders_eq ''status'' (JStr ''active'')) \<and>
   findWhere exampleHost (operatorEvaluators exampleHost) [John, Jane, Bob]
     (builders_eq ''status'' (JStr ''active'')) (Some 0) (Some 1) = Inr [Jane] \<and>
   findWhere exampleHost (operatorEvaluators exampleHost) [John, Jane, Bob]
     (builders_eq ''status'' (JStr ''active'')) None (Some 1) = Inr [Jane] \<and>
   \<not> ToBoolean JUndefined \<and>
   findWhere exampleHost (operatorEvaluators exampleHost) [John, Jane, Bob]
     JUndefined (Some 0) (Some 1) = Inr []"
proof -
  have t: "ToBoolean (builders_eq ''status'' (JStr ''active''))"
    by (simp add: builders_eq_def single_def)
  have f: "filterEntities exampleHost (operatorEvaluators exampleHost) [John, Jane, Bob]
     (builders_eq ''status'' (JStr ''active'')) = Inr [John, Jane]"
    by code_simp
  have u: "\<not> ToBoolean JUndefined" by simp
  show ?thesis
    using t f u
      C10_limit_zero_ignored[of "builders_eq ''status'' (JStr ''active'')" exampleHost
        "operatorEvaluators exampleHost" "[John, Jane, Bob]" "Some 1"]
      C10_limit_zero_ignored[of JUndefined exampleHost
        "operatorEvaluators exampleHost" "[John, Jane, Bob]" "Some 1"]
    by auto
qed

end
